theory Spec2Isabelle
  imports Main "HOL-Library.Word" "HOL-Library.AList"
begin

section \<open>JavaScript strings\<close>

text \<open>
  A JavaScript string is a sequence of 16-bit code units. The regular expressions of
  \<^verbatim>\<open>string-utils.ts\<close> carry no \<^verbatim>\<open>u\<close> flag, so they match and replace one code unit
  at a time. String literals of the source are ASCII and are written through \<open>lit\<close>.
\<close>

type_synonym jsstring = "16 word list"

definition lit :: "string \<Rightarrow> jsstring" where
  "lit s = map of_char s"

text \<open>The character classes used by the regular expressions of the source.\<close>

definition isDigit :: "16 word \<Rightarrow> bool" where
  "isDigit c \<longleftrightarrow> 48 \<le> c \<and> c \<le> 57"

definition isLower :: "16 word \<Rightarrow> bool" where
  "isLower c \<longleftrightarrow> 97 \<le> c \<and> c \<le> 122"

definition isUpper :: "16 word \<Rightarrow> bool" where
  "isUpper c \<longleftrightarrow> 65 \<le> c \<and> c \<le> 90"

definition underscore :: "16 word" where
  "underscore = 95"

text \<open>The class \<^verbatim>\<open>[a-zA-Z0-9_]\<close>.\<close>

definition isWordChar :: "16 word \<Rightarrow> bool" where
  "isWordChar c \<longleftrightarrow> isLower c \<or> isUpper c \<or> isDigit c \<or> c = underscore"

section \<open>string-utils.ts\<close>

text \<open>
  \<^verbatim>\<open>name.replace(/[^a-zA-Z0-9_]/g, '_').replace(/^(\d)/, '_$1').replace(/^$/, '_empty')\<close>:
  three replacements in sequence. The first rewrites every code unit outside the class,
  the second fires when the string starts with a digit, the third when the string is empty
  (there is no \<^verbatim>\<open>m\<close> flag, so \<^verbatim>\<open>^$\<close> matches the empty string only).
\<close>

definition replaceNonWord :: "jsstring \<Rightarrow> jsstring" where
  "replaceNonWord s = map (\<lambda>c. if isWordChar c then c else underscore) s"

definition prefixLeadingDigit :: "jsstring \<Rightarrow> jsstring" where
  "prefixLeadingDigit s = (case s of [] \<Rightarrow> [] | c # cs \<Rightarrow> if isDigit c then underscore # c # cs else c # cs)"

definition replaceEmpty :: "jsstring \<Rightarrow> jsstring" where
  "replaceEmpty s = (if s = [] then lit ''_empty'' else s)"

definition sanitizeIdentifier :: "jsstring \<Rightarrow> jsstring" where
  "sanitizeIdentifier name = replaceEmpty (prefixLeadingDigit (replaceNonWord name))"

section \<open>Values, errors and the generator's records\<close>

text \<open>
  \<^verbatim>\<open>yaml.load\<close> returns a generic document object, which the parser casts to
  \<^verbatim>\<open>OpenAPISpec\<close> without checking it. The model keeps the generic value. JavaScript's
  \<^verbatim>\<open>null\<close> and \<^verbatim>\<open>undefined\<close> are both \<open>JNull\<close>: the code under study only tests
  them for truthiness, reads properties of them (a TypeError for both) or skips them with
  \<^verbatim>\<open>?.\<close>. Numbers are the integers that a JavaScript number holds exactly and prints in
  full digits (magnitude below \<^verbatim>\<open>2^53\<close>); fractions, \<^verbatim>\<open>NaN\<close> and the infinities are outside
  the model. An object is the list of its entries in insertion order, its keys distinct.
\<close>

datatype json =
    JNull
  | JBool bool
  | JNum int
  | JStr jsstring
  | JArr "json list"
  | JObj "(jsstring \<times> json) list"

text \<open>What \<^verbatim>\<open>!v\<close> negates.\<close>

fun truthy :: "json \<Rightarrow> bool" where
  "truthy JNull = False"
| "truthy (JBool b) = b"
| "truthy (JNum n) = (n \<noteq> 0)"
| "truthy (JStr s) = (s \<noteq> [])"
| "truthy (JArr xs) = True"
| "truthy (JObj kvs) = True"

text \<open>
  The property read \<^verbatim>\<open>v.k\<close> on a value other than null, for the property names the
  source uses (\<^verbatim>\<open>openapi\<close>, \<^verbatim>\<open>paths\<close>, \<^verbatim>\<open>choices\<close>, ...): none of them is a built-in
  property of a string, an array or a number, so only an object can hold one.
\<close>

fun member :: "json \<Rightarrow> jsstring \<Rightarrow> json" where
  "member (JObj kvs) k = (case map_of kvs k of Some v \<Rightarrow> v | None \<Rightarrow> JNull)"
| "member v k = JNull"

text \<open>
  A thrown value: an \<^verbatim>\<open>Error\<close>, a \<^verbatim>\<open>TypeError\<close> or a \<^verbatim>\<open>SyntaxError\<close>, each with its
  message.
\<close>

datatype error =
    Error jsstring
  | TypeError jsstring
  | SyntaxError jsstring

fun message :: "error \<Rightarrow> jsstring" where
  "message (Error m) = m"
| "message (TypeError m) = m"
| "message (SyntaxError m) = m"

record Config =
  apiUrl :: jsstring
  apiKey :: jsstring
  outputDir :: jsstring
  generateCloudflareWorker :: bool

record GeneratedFile =
  path :: jsstring
  content :: jsstring
  description :: jsstring

section \<open>Numbers and values as text\<close>

text \<open>The decimal digits of a number, as \<^verbatim>\<open>String(n)\<close> and template literals print an integer.\<close>

fun showNat :: "nat \<Rightarrow> jsstring" where
  "showNat n = (if n < 10 then [of_nat (48 + n)] else showNat (n div 10) @ [of_nat (48 + n mod 10)])"

declare showNat.simps [simp del]

definition showInt :: "int \<Rightarrow> jsstring" where
  "showInt i = (if i < 0 then lit ''-'' @ showNat (nat (- i)) else showNat (nat i))"

text \<open>Lines joined by a line feed: the multi-line template literals of the source.\<close>

definition newline :: "16 word" where
  "newline = 10"

fun joinWith :: "jsstring \<Rightarrow> jsstring list \<Rightarrow> jsstring" where
  "joinWith sep [] = []"
| "joinWith sep [x] = x"
| "joinWith sep (x # y # ys) = x @ sep @ joinWith sep (y # ys)"

definition joinLines :: "jsstring list \<Rightarrow> jsstring" where
  "joinLines ls = joinWith [newline] ls"

text \<open>
  \<^verbatim>\<open>String(v)\<close>, which a template literal applies to an interpolated value: a string is
  itself, an array is its elements joined by commas (null elements print as nothing), an
  object prints as \<^verbatim>\<open>[object Object]\<close>, an integer in full digits (the numbers of the
  model are below \<^verbatim>\<open>2^53\<close>, where JavaScript does the same). The source applies it to
  truthy values only.
\<close>

fun toStr :: "json \<Rightarrow> jsstring" where
  "toStr JNull = lit ''null''"
| "toStr (JBool b) = (if b then lit ''true'' else lit ''false'')"
| "toStr (JNum n) = showInt n"
| "toStr (JStr s) = s"
| "toStr (JArr xs) = joinWith (lit '','') (map (\<lambda>x. if x = JNull then [] else toStr x) xs)"
| "toStr (JObj kvs) = lit ''[object Object]''"

text \<open>
  \<^verbatim>\<open>Object.entries(v)\<close> for a value other than null, which is also the order in which
  \<^verbatim>\<open>{...v}\<close> copies. An object gives the keys that are array indices (decimal numerals
  without a leading zero, below \<^verbatim>\<open>2^32 - 1\<close>) first, in ascending order, then its other
  keys in insertion order. An array gives its indexed elements, a string its indexed code
  units, a number or a boolean nothing.
\<close>

definition decimalValue :: "jsstring \<Rightarrow> nat" where
  "decimalValue s = foldl (\<lambda>acc c. acc * 10 + (unat c - 48)) 0 s"

definition isIndexKey :: "jsstring \<Rightarrow> bool" where
  "isIndexKey k \<longleftrightarrow>
     (case k of
        [] \<Rightarrow> False
      | c # cs \<Rightarrow> list_all isDigit (c # cs) \<and> (cs = [] \<or> c \<noteq> 48)
                 \<and> decimalValue (c # cs) < 4294967295)"

fun entries :: "json \<Rightarrow> (jsstring \<times> json) list" where
  "entries (JObj kvs) =
     sort_key (\<lambda>(k, v). decimalValue k) (filter (\<lambda>(k, v). isIndexKey k) kvs)
     @ filter (\<lambda>(k, v). \<not> isIndexKey k) kvs"
| "entries (JArr xs) = zip (map showNat [0..<length xs]) xs"
| "entries (JStr s) = zip (map showNat [0..<length s]) (map (\<lambda>c. JStr [c]) s)"
| "entries v = []"

text \<open>\<^verbatim>\<open>v?.k\<close> and \<^verbatim>\<open>v?.[0]\<close>.\<close>

definition optMember :: "json \<Rightarrow> jsstring \<Rightarrow> json" where
  "optMember v k = (if v = JNull then JNull else member v k)"

fun first :: "json \<Rightarrow> json" where
  "first (JArr xs) = (case xs of [] \<Rightarrow> JNull | x # rest \<Rightarrow> x)"
| "first (JStr s) = (case s of [] \<Rightarrow> JNull | c # rest \<Rightarrow> JStr [c])"
| "first (JObj kvs) = member (JObj kvs) (lit ''0'')"
| "first v = JNull"

definition optFirst :: "json \<Rightarrow> json" where
  "optFirst v = (if v = JNull then JNull else first v)"

section \<open>Requests and responses of the platform\<close>

text \<open>
  The \<^verbatim>\<open>Response\<close> class, for the responses a worker builds and for the one \<^verbatim>\<open>fetch\<close>
  resolves to. A body is kept as the value it serialises: \<open>Json v\<close> is the text
  \<^verbatim>\<open>JSON.stringify(v)\<close>, \<open>Text s\<close> a text that is not JSON.
\<close>

datatype body = NoBody | Json json | Text jsstring

record Response =
  status :: nat
  statusText :: jsstring
  headers :: "(jsstring \<times> jsstring) list"
  body :: body

text \<open>\<^verbatim>\<open>response.ok\<close>: the status is in the range 200 to 299.\<close>

definition ok :: "Response \<Rightarrow> bool" where
  "ok response \<longleftrightarrow> 200 \<le> status response \<and> status response \<le> 299"

text \<open>
  \<^verbatim>\<open>response.json()\<close>: the parsed body, or the SyntaxError of \<^verbatim>\<open>JSON.parse\<close>. The
  runtime's message quotes the offending input; the model keeps a fixed text, which the
  generator only copies into a console warning.
\<close>

definition responseJson :: "Response \<Rightarrow> error + json" where
  "responseJson response =
     (case body response of
        Json v \<Rightarrow> Inr v
      | Text s \<Rightarrow> Inl (SyntaxError (lit ''Unexpected token in JSON''))
      | NoBody \<Rightarrow> Inl (SyntaxError (lit ''Unexpected end of JSON input'')))"

section \<open>String operations of the platform\<close>

text \<open>\<^verbatim>\<open>s.split(c)\<close> for a one-character separator: the empty string gives one empty piece.\<close>

fun split :: "16 word \<Rightarrow> jsstring \<Rightarrow> jsstring list" where
  "split sep [] = [[]]"
| "split sep (c # cs) =
     (if c = sep then [] # split sep cs
      else case split sep cs of
             [] \<Rightarrow> [[c]]
           | piece # pieces \<Rightarrow> (c # piece) # pieces)"

section \<open>The file system behind file-utils.ts and the parser\<close>

text \<open>
  Node's \<^verbatim>\<open>fs\<close> as far as the generator can observe it: the content of every regular
  file by path and the directories that exist. Paths are compared as they are written.
  \<^verbatim>\<open>readFileSync\<close> returns the content of a regular file and fails on a directory
  (EISDIR) and on a path that does not exist (ENOENT). \<^verbatim>\<open>mkdir\<close> with
  \<^verbatim>\<open>recursive: true\<close> fails on a path that is a regular file (EEXIST) or lies under one
  (ENOTDIR); otherwise it makes sure the directory and its ancestors exist.
  \<^verbatim>\<open>fs.writeFile\<close> fails on a path that is a directory (EISDIR) and otherwise stores the
  content; file-utils.ts calls it only after \<^verbatim>\<open>mkdir\<close> on the parent. Console output is
  not modelled.
\<close>

record filesystem =
  files :: "(jsstring \<times> jsstring) list"
  dirs :: "jsstring list"

definition quoted :: "jsstring \<Rightarrow> jsstring" where
  "quoted p = lit [CHR 0x27] @ p @ lit [CHR 0x27]"

definition slash :: "16 word" where
  "slash = 47"

text \<open>The proper ancestors of a path: what stands before each slash, the root left out.\<close>

fun ancestorsFrom :: "jsstring \<Rightarrow> jsstring \<Rightarrow> jsstring list" where
  "ancestorsFrom seen [] = []"
| "ancestorsFrom seen (c # cs) =
     (if c = slash \<and> seen \<noteq> [] \<and> last seen \<noteq> slash then [seen] else [])
     @ ancestorsFrom (seen @ [c]) cs"

definition ancestors :: "jsstring \<Rightarrow> jsstring list" where
  "ancestors p = ancestorsFrom [] p"

definition readFileSync :: "jsstring \<Rightarrow> filesystem \<Rightarrow> error + jsstring" where
  "readFileSync p fs =
     (case map_of (files fs) p of
        Some c \<Rightarrow> Inr c
      | None \<Rightarrow>
          if p \<in> set (dirs fs)
          then Inl (Error (lit ''EISDIR: illegal operation on a directory, read''))
          else Inl (Error (lit ''ENOENT: no such file or directory, open '' @ quoted p)))"

definition mkdir :: "jsstring \<Rightarrow> filesystem \<Rightarrow> (error + unit) \<times> filesystem" where
  "mkdir p fs =
     (if p \<in> fst ` set (files fs)
      then (Inl (Error (lit ''EEXIST: file already exists, mkdir '' @ quoted p)), fs)
      else if \<exists>a \<in> set (ancestors p). a \<in> fst ` set (files fs)
      then (Inl (Error (lit ''ENOTDIR: not a directory, mkdir '' @ quoted p)), fs)
      else (Inr (), fs\<lparr>dirs := foldr List.insert (ancestors p @ [p]) (dirs fs)\<rparr>))"

definition fs_writeFile :: "jsstring \<Rightarrow> jsstring \<Rightarrow> filesystem \<Rightarrow> (error + unit) \<times> filesystem" where
  "fs_writeFile p d fs =
     (if p \<in> set (dirs fs)
      then (Inl (Error (lit ''EISDIR: illegal operation on a directory, open '' @ quoted p)), fs)
      else (Inr (), fs\<lparr>files := AList.update p d (files fs)\<rparr>))"

text \<open>
  \<^verbatim>\<open>path.dirname\<close> (POSIX): scanning from the end and never looking at index 0, skip the
  trailing slashes, skip the last segment, and cut at the slash found there.
\<close>

definition dirname :: "jsstring \<Rightarrow> jsstring" where
  "dirname p =
     (case p of
        [] \<Rightarrow> lit ''.''
      | c # cs \<Rightarrow>
          (case dropWhile (\<lambda>x. x \<noteq> slash) (dropWhile (\<lambda>x. x = slash) (rev cs)) of
             [] \<Rightarrow> if c = slash then lit ''/'' else lit ''.''
           | s # front \<Rightarrow> if c = slash \<and> front = [] then lit ''//'' else c # rev front))"

section \<open>file-utils.ts\<close>

definition ensureDirectoryExists :: "jsstring \<Rightarrow> filesystem \<Rightarrow> (error + unit) \<times> filesystem" where
  "ensureDirectoryExists dirPath fs =
     (case mkdir dirPath fs of
        (Inl e, fs') \<Rightarrow>
          (Inl (Error (lit ''Error creating directory at '' @ dirPath @ lit '': '' @ message e)), fs')
      | (Inr u, fs') \<Rightarrow> (Inr (), fs'))"

definition writeFile :: "jsstring \<Rightarrow> jsstring \<Rightarrow> filesystem \<Rightarrow> (error + unit) \<times> filesystem" where
  "writeFile filePath d fs =
     (let wrap = (\<lambda>e. Error (lit ''Error writing file at '' @ filePath @ lit '': '' @ message e)) in
      case ensureDirectoryExists (dirname filePath) fs of
        (Inl e, fs') \<Rightarrow> (Inl (wrap e), fs')
      | (Inr u, fs') \<Rightarrow>
          (case fs_writeFile filePath d fs' of
             (Inl e, fs'') \<Rightarrow> (Inl (wrap e), fs'')
           | (Inr u, fs'') \<Rightarrow> (Inr (), fs'')))"

text \<open>The \<^verbatim>\<open>for ... of\<close> loop of writeGeneratedFiles: the first failing write ends it.\<close>

fun writeEach :: "GeneratedFile list \<Rightarrow> jsstring \<Rightarrow> filesystem \<Rightarrow> (error + unit) \<times> filesystem" where
  "writeEach [] outDir fs = (Inr (), fs)"
| "writeEach (file # rest) outDir fs =
     (case writeFile (outDir @ lit ''/'' @ path file) (content file) fs of
        (Inl e, fs') \<Rightarrow> (Inl e, fs')
      | (Inr u, fs') \<Rightarrow> writeEach rest outDir fs')"

definition writeGeneratedFiles :: "GeneratedFile list \<Rightarrow> jsstring \<Rightarrow> filesystem \<Rightarrow> (error + unit) \<times> filesystem" where
  "writeGeneratedFiles fls outDir fs =
     (case ensureDirectoryExists outDir fs of
        (Inl e, fs') \<Rightarrow> (Inl e, fs')
      | (Inr u, fs') \<Rightarrow> writeEach fls outDir fs')"

section \<open>parser.ts\<close>

text \<open>
  \<^verbatim>\<open>yaml.load\<close> belongs to the js-yaml library and is a parameter: a function from the
  file's text to a document, or to the error it throws. Everything thrown inside the
  \<^verbatim>\<open>try\<close>, the parser's own error included, is caught and rethrown with a prefix.
\<close>

definition parseOpenApiYaml :: "(jsstring \<Rightarrow> error + json) \<Rightarrow> jsstring \<Rightarrow> filesystem \<Rightarrow> error + json" where
  "parseOpenApiYaml load filePath fs =
     (let rethrow = (\<lambda>e. Inl (Error (lit ''Failed to parse OpenAPI YAML file: '' @ message e))) in
      case readFileSync filePath fs of
        Inl e \<Rightarrow> rethrow e
      | Inr fileContents \<Rightarrow>
          (case load fileContents of
             Inl e \<Rightarrow> rethrow e
           | Inr parsedData \<Rightarrow>
               if \<not> truthy parsedData \<or> \<not> truthy (member parsedData (lit ''openapi''))
               then rethrow (Error (lit ''Invalid OpenAPI YAML file: Missing required fields.''))
               else Inr parsedData))"

section \<open>generator/index.ts: the pipeline\<close>

text \<open>
  Modelled from the spec: \<^verbatim>\<open>generateTypes\<close> (types-generator.ts) and \<^verbatim>\<open>generateStubs\<close>
  (stubs-generator.ts) are imported by the generator but are not among the sources. The
  spec gives them as the Type Emitter and the Route Grouper and Stub Emitter, which hand
  their artifacts to the writer; generateFromYaml calls them synchronously and reads their
  return values. They are fields of the record below, next to the js-yaml loader: functions
  of their arguments that return artifacts or throw. That they read no clock and touch no
  file is a premise of this model, not a result of it; nothing below is claimed about
  what they compute.
\<close>

record collaborators =
  yaml_load :: "jsstring \<Rightarrow> error + json"
  generateTypes :: "json \<Rightarrow> error + GeneratedFile"
  generateStubs :: "json \<Rightarrow> Config \<Rightarrow> error + GeneratedFile list"

text \<open>
  The \<^verbatim>\<open>catch\<close> of generateFromYaml logs and rethrows the error it caught, so an error
  leaves the function as it was thrown.
\<close>

definition generateFromYaml ::
  "collaborators \<Rightarrow> Config \<Rightarrow> jsstring \<Rightarrow> filesystem \<Rightarrow> (error + GeneratedFile list) \<times> filesystem" where
  "generateFromYaml C config yamlFilePath fs =
     (case parseOpenApiYaml (yaml_load C) yamlFilePath fs of
        Inl e \<Rightarrow> (Inl e, fs)
      | Inr spec \<Rightarrow>
          (case generateTypes C spec of
             Inl e \<Rightarrow> (Inl e, fs)
           | Inr typesFile \<Rightarrow>
               (case generateStubs C spec config of
                  Inl e \<Rightarrow> (Inl e, fs)
                | Inr stubFiles \<Rightarrow>
                    (let allFiles = typesFile # stubFiles in
                     case writeGeneratedFiles allFiles (outputDir config) fs of
                       (Inl e, fs') \<Rightarrow> (Inl e, fs')
                     | (Inr u, fs') \<Rightarrow> (Inr allFiles, fs')))))"

section \<open>generator/index.ts: stubs and the AI enhancement\<close>

definition generateBasicStub :: "jsstring \<Rightarrow> jsstring" where
  "generateBasicStub operationId = joinLines
     [ [],
       lit ''// TODO: Implement '' @ operationId,
       lit ''export async function '' @ operationId @ lit ''(request: Request): Promise<Response> {'',
       lit ''  // Add your business logic here'',
       lit ''  return new Response(JSON.stringify({ '',
       lit ''    message: \"Not implemented\", '',
       lit ''    operation: \"'' @ operationId @ lit ''\" '',
       lit ''  }), {'',
       lit ''    status: 501,'',
       lit ''    headers: { \"Content-Type\": \"application/json\" }'',
       lit ''  });'',
       lit ''}'' ]"

definition httpMethods :: "jsstring list" where
  "httpMethods = [lit ''get'', lit ''post'', lit ''put'', lit ''delete'', lit ''patch'',
     lit ''options'', lit ''head'', lit ''trace'']"

text \<open>
  The inner loop of findOperation over the methods of one path item, and the outer loop
  over the entries of \<^verbatim>\<open>spec.paths\<close>. The result of a hit is the operation with
  \<^verbatim>\<open>path\<close> and \<^verbatim>\<open>method\<close> set.
\<close>

fun findMethod :: "jsstring \<Rightarrow> json \<Rightarrow> jsstring \<Rightarrow> jsstring list \<Rightarrow> json option" where
  "findMethod p pathItem operationId [] = None"
| "findMethod p pathItem operationId (method # rest) =
     (let operation = member pathItem method in
      if optMember operation (lit ''operationId'') = JStr operationId
      then Some (JObj (AList.update (lit ''method'') (JStr method)
                        (AList.update (lit ''path'') (JStr p) (entries operation))))
      else findMethod p pathItem operationId rest)"

fun findPath :: "(jsstring \<times> json) list \<Rightarrow> jsstring \<Rightarrow> json" where
  "findPath [] operationId = JNull"
| "findPath ((p, pathItem) # rest) operationId =
     (if \<not> truthy pathItem then findPath rest operationId
      else case findMethod p pathItem operationId httpMethods of
             Some found \<Rightarrow> found
           | None \<Rightarrow> findPath rest operationId)"

definition findOperation :: "json \<Rightarrow> jsstring \<Rightarrow> error + json" where
  "findOperation spec operationId =
     (if spec = JNull
      then Inl (TypeError (lit ''Cannot read properties of null (reading 'paths')''))
      else let paths = member spec (lit ''paths'') in
           Inr (findPath (if truthy paths then entries paths else []) operationId))"

definition orElse :: "json \<Rightarrow> jsstring \<Rightarrow> jsstring" where
  "orElse v d = (if truthy v then toStr v else d)"

definition buildAIPrompt :: "json \<Rightarrow> jsstring \<Rightarrow> error + jsstring" where
  "buildAIPrompt spec operationId =
     (case findOperation spec operationId of
        Inl e \<Rightarrow> Inl e
      | Inr operation \<Rightarrow> Inr (joinLines
          [ lit ''Generate a Cloudflare Workers compatible TypeScript function for this OpenAPI operation:'',
            [],
            lit ''Operation ID: '' @ operationId,
            lit ''Description: '' @ orElse (optMember operation (lit ''description'')) (lit ''No description provided''),
            lit ''Method: '' @ orElse (optMember operation (lit ''method'')) (lit ''Unknown''),
            lit ''Path: '' @ orElse (optMember operation (lit ''path'')) (lit ''Unknown''),
            [],
            lit ''Requirements:'',
            lit ''- Use TypeScript'',
            lit ''- Compatible with Cloudflare Workers runtime'',
            lit ''- Include proper error handling'',
            lit ''- Return appropriate HTTP responses'',
            lit ''- Include TODO comments for business logic implementation'',
            [],
            lit ''Please generate only the function implementation, not the full file structure.'' ]))"

text \<open>
  The network is a parameter: a function from the request callAIAPI sends to what
  \<^verbatim>\<open>fetch\<close> does with it, a rejection or a response. Of the request only the parts that
  vary are kept (the model name, the system message, \<^verbatim>\<open>max_tokens\<close> and the temperature
  are constants of the source).
\<close>

record ai_request =
  requestUrl :: jsstring
  authorization :: jsstring
  userPrompt :: jsstring

datatype fetch_outcome = Rejected error | Responded Response

definition callAIAPI :: "Config \<Rightarrow> (ai_request \<Rightarrow> fetch_outcome) \<Rightarrow> jsstring \<Rightarrow> error + json" where
  "callAIAPI config net prompt =
     (case net \<lparr>requestUrl = apiUrl config @ lit ''/chat/completions'',
                authorization = lit ''Bearer '' @ apiKey config,
                userPrompt = prompt\<rparr> of
        Rejected e \<Rightarrow> Inl e
      | Responded response \<Rightarrow>
          if \<not> ok response
          then Inl (Error (lit ''AI API request failed: '' @ showNat (status response) @ lit '' ''
                           @ statusText response))
          else (case responseJson response of
                  Inl e \<Rightarrow> Inl e
                | Inr data \<Rightarrow>
                    if data = JNull
                    then Inl (TypeError (lit ''Cannot read properties of null (reading 'choices')''))
                    else (let c = optMember (optMember (optFirst (member data (lit ''choices'')))
                                     (lit ''message'')) (lit ''content'') in
                          Inr (if truthy c then c else JStr (generateBasicStub (lit ''unknown''))))))"

text \<open>The body of the \<^verbatim>\<open>try\<close> block of enhanceWithAI.\<close>

definition attemptAI :: "Config \<Rightarrow> (ai_request \<Rightarrow> fetch_outcome) \<Rightarrow> json \<Rightarrow> jsstring \<Rightarrow> error + json" where
  "attemptAI config net spec operationId =
     (case buildAIPrompt spec operationId of
        Inl e \<Rightarrow> Inl e
      | Inr prompt \<Rightarrow> callAIAPI config net prompt)"

definition enhanceWithAI :: "Config \<Rightarrow> (ai_request \<Rightarrow> fetch_outcome) \<Rightarrow> json \<Rightarrow> jsstring \<Rightarrow> error + json" where
  "enhanceWithAI config net spec operationId =
     (if apiKey config = [] \<or> apiKey config = lit ''your-api-key-here''
      then Inr (JStr (generateBasicStub operationId))
      else case attemptAI config net spec operationId of
             Inl e \<Rightarrow> Inr (JStr (generateBasicStub operationId))
           | Inr enhancedCode \<Rightarrow> Inr enhancedCode)"

section \<open>examples/enhanced-worker.ts: the routing step\<close>

text \<open>
  A \<^verbatim>\<open>Request\<close> as the module reads it: the method (\<open>httpMethod\<close>), the headers and,
  through \<^verbatim>\<open>new URL(request.url)\<close>, the path name. routeRequest itself reads the path
  name only and hands the request, the environment and the execution context on to the
  group worker; the execution context is left out.
\<close>

record Request =
  httpMethod :: jsstring
  pathname :: jsstring
  requestHeaders :: "(jsstring \<times> jsstring) list"

record Env =
  API_KEY :: "jsstring option"
  API_BASE_URL :: "jsstring option"
  ALLOWED_ORIGINS :: "jsstring option"
  RATE_LIMIT_PER_MINUTE :: "jsstring option"
  DEBUG :: "jsstring option"

text \<open>
  The eighteen group workers the module imports. None of them is among the sources; each
  is a parameter, a function that returns a response or throws.
\<close>

type_synonym Worker = "Request \<Rightarrow> Env \<Rightarrow> error + Response"

record Workers =
  assistantsWorker :: Worker
  audioWorker :: Worker
  batchesWorker :: Worker
  chatWorker :: Worker
  completionsWorker :: Worker
  embeddingsWorker :: Worker
  evalsWorker :: Worker
  filesWorker :: Worker
  fine_tuningWorker :: Worker
  imagesWorker :: Worker
  modelsWorker :: Worker
  moderationsWorker :: Worker
  organizationWorker :: Worker
  realtimeWorker :: Worker
  responsesWorker :: Worker
  threadsWorker :: Worker
  uploadsWorker :: Worker
  vector_storesWorker :: Worker

text \<open>The response of the \<^verbatim>\<open>default\<close> branch of the \<^verbatim>\<open>switch\<close>.\<close>

definition notFoundResponse :: Response where
  "notFoundResponse =
     \<lparr>status = 404, statusText = [],
      headers = [(lit ''Content-Type'', lit ''application/json'')],
      body = Json (JObj
        [(lit ''error'', JStr (lit ''Not Found'')),
         (lit ''availableRoutes'', JArr
            [JStr (lit ''assistants''), JStr (lit ''audio''), JStr (lit ''batches''),
             JStr (lit ''chat''), JStr (lit ''completions''), JStr (lit ''embeddings''),
             JStr (lit ''evals''), JStr (lit ''files''), JStr (lit ''fine_tuning''),
             JStr (lit ''images''), JStr (lit ''models''), JStr (lit ''moderations''),
             JStr (lit ''organization''), JStr (lit ''realtime''), JStr (lit ''responses''),
             JStr (lit ''threads''), JStr (lit ''uploads''), JStr (lit ''vector_stores'')])])\<rparr>"

text \<open>
  \<^verbatim>\<open>url.pathname.split("/").filter(Boolean)\<close> and \<^verbatim>\<open>pathSegments[0] || "root"\<close>, then the
  \<^verbatim>\<open>switch\<close> over the prefix.
\<close>

definition pathSegments :: "jsstring \<Rightarrow> jsstring list" where
  "pathSegments p = filter (\<lambda>s. s \<noteq> []) (split slash p)"

definition routePrefix :: "jsstring \<Rightarrow> jsstring" where
  "routePrefix p = (case pathSegments p of [] \<Rightarrow> lit ''root'' | s # rest \<Rightarrow> s)"

definition routeRequest :: "Workers \<Rightarrow> Request \<Rightarrow> Env \<Rightarrow> error + Response" where
  "routeRequest W request env =
     (let prefix = routePrefix (pathname request) in
      if prefix = lit ''assistants'' then assistantsWorker W request env
      else if prefix = lit ''audio'' then audioWorker W request env
      else if prefix = lit ''batches'' then batchesWorker W request env
      else if prefix = lit ''chat'' then chatWorker W request env
      else if prefix = lit ''completions'' then completionsWorker W request env
      else if prefix = lit ''embeddings'' then embeddingsWorker W request env
      else if prefix = lit ''evals'' then evalsWorker W request env
      else if prefix = lit ''files'' then filesWorker W request env
      else if prefix = lit ''fine_tuning'' then fine_tuningWorker W request env
      else if prefix = lit ''images'' then imagesWorker W request env
      else if prefix = lit ''models'' then modelsWorker W request env
      else if prefix = lit ''moderations'' then moderationsWorker W request env
      else if prefix = lit ''organization'' then organizationWorker W request env
      else if prefix = lit ''realtime'' then realtimeWorker W request env
      else if prefix = lit ''responses'' then responsesWorker W request env
      else if prefix = lit ''threads'' then threadsWorker W request env
      else if prefix = lit ''uploads'' then uploadsWorker W request env
      else if prefix = lit ''vector_stores'' then vector_storesWorker W request env
      else Inr notFoundResponse)"

section \<open>Notions used to state the properties\<close>

text \<open>\<^verbatim>\<open>k in v\<close>: the value is an object that has the field.\<close>

fun hasOwn :: "json \<Rightarrow> jsstring \<Rightarrow> bool" where
  "hasOwn (JObj kvs) k = (map_of kvs k \<noteq> None)"
| "hasOwn v k = False"

text \<open>What the parser throws for a document that fails its check, prefix included.\<close>

definition missingFieldsError :: error where
  "missingFieldsError =
     Error (lit ''Failed to parse OpenAPI YAML file: Invalid OpenAPI YAML file: Missing required fields.'')"

text \<open>The known group names, each with the dispatcher of its group.\<close>

definition groupDispatchers :: "Workers \<Rightarrow> (jsstring \<times> Worker) list" where
  "groupDispatchers W =
     [(lit ''assistants'', assistantsWorker W), (lit ''audio'', audioWorker W),
      (lit ''batches'', batchesWorker W), (lit ''chat'', chatWorker W),
      (lit ''completions'', completionsWorker W), (lit ''embeddings'', embeddingsWorker W),
      (lit ''evals'', evalsWorker W), (lit ''files'', filesWorker W),
      (lit ''fine_tuning'', fine_tuningWorker W), (lit ''images'', imagesWorker W),
      (lit ''models'', modelsWorker W), (lit ''moderations'', moderationsWorker W),
      (lit ''organization'', organizationWorker W), (lit ''realtime'', realtimeWorker W),
      (lit ''responses'', responsesWorker W), (lit ''threads'', threadsWorker W),
      (lit ''uploads'', uploadsWorker W), (lit ''vector_stores'', vector_storesWorker W)]"

text \<open>
  The first path segment of a path name, read off the text itself: skip the leading
  slashes; what stands before the next slash is the segment, and a path of slashes only
  has none.
\<close>

definition firstSegment :: "jsstring \<Rightarrow> jsstring option" where
  "firstSegment p =
     (case dropWhile (\<lambda>c. c = 47) p of
        [] \<Rightarrow> None
      | c # cs \<Rightarrow> Some (takeWhile (\<lambda>x. x \<noteq> 47) (c # cs)))"

section \<open>Example inputs\<close>

text \<open>
  A loader that knows three file texts, two generators that return one artifact each, one
  that fails, and four file systems: one without an output directory, one with an artifact
  of an earlier run, one where a directory sits at the path of the second artifact, and
  one whose input file gives \<^verbatim>\<open>openapi\<close> the empty string.
\<close>

definition exampleDocument :: json where
  "exampleDocument = JObj [(lit ''openapi'', JStr (lit ''3.0.0''))]"

definition emptyVersionDocument :: json where
  "emptyVersionDocument = JObj [(lit ''openapi'', JStr [])]"

definition exampleLoad :: "jsstring \<Rightarrow> error + json" where
  "exampleLoad text =
     (if text = lit ''openapi: 3.0.0'' then Inr exampleDocument
      else if text = lit ''openapi: \"\"'' then Inr emptyVersionDocument
      else if text = [] then Inr JNull
      else Inl (Error (lit ''bad indentation of a mapping entry'')))"

definition typesArtifact :: GeneratedFile where
  "typesArtifact = \<lparr>path = lit ''types.ts'', content = lit ''export {};'',
     description = lit ''TypeScript type definitions''\<rparr>"

definition workerArtifact :: GeneratedFile where
  "workerArtifact = \<lparr>path = lit ''worker.ts'', content = lit ''export default {};'',
     description = lit ''Main router''\<rparr>"

definition exampleTypes :: "json \<Rightarrow> error + GeneratedFile" where
  "exampleTypes spec = Inr typesArtifact"

definition exampleStubs :: "json \<Rightarrow> Config \<Rightarrow> error + GeneratedFile list" where
  "exampleStubs spec config = Inr [workerArtifact]"

definition failingStubs :: "json \<Rightarrow> Config \<Rightarrow> error + GeneratedFile list" where
  "failingStubs spec config = Inl (Error (lit ''operation without a path''))"

definition exampleCollaborators :: collaborators where
  "exampleCollaborators =
     \<lparr>yaml_load = exampleLoad, generateTypes = exampleTypes, generateStubs = exampleStubs\<rparr>"

definition failingCollaborators :: collaborators where
  "failingCollaborators =
     \<lparr>yaml_load = exampleLoad, generateTypes = exampleTypes, generateStubs = failingStubs\<rparr>"

definition exampleConfig :: Config where
  "exampleConfig = \<lparr>apiUrl = lit ''https://api.openai.com/v1'', apiKey = lit ''your-api-key-here'',
     outputDir = lit ''./generated'', generateCloudflareWorker = True\<rparr>"

definition freshFilesystem :: filesystem where
  "freshFilesystem = \<lparr>files = [(lit ''api.yaml'', lit ''openapi: 3.0.0'')], dirs = []\<rparr>"

definition staleFilesystem :: filesystem where
  "staleFilesystem =
     \<lparr>files = [(lit ''./generated/types.ts'', lit ''export type Old = string;''),
               (lit ''api.yaml'', lit ''openapi: 3.0.0'')],
      dirs = [lit ''./generated'']\<rparr>"

definition blockedFilesystem :: filesystem where
  "blockedFilesystem =
     \<lparr>files = [(lit ''api.yaml'', lit ''openapi: 3.0.0'')], dirs = [lit ''./generated/worker.ts'']\<rparr>"

definition emptyVersionFilesystem :: filesystem where
  "emptyVersionFilesystem = \<lparr>files = [(lit ''api.yaml'', lit ''openapi: \"\"'')], dirs = []\<rparr>"

text \<open>
  A configuration with an API key, three networks (one that rejects every request, one
  that answers 200 with the JSON body \<^verbatim>\<open>null\<close>, one that answers 200 with an empty
  \<^verbatim>\<open>choices\<close> array) and a document with one operation.
\<close>

definition keyedConfig :: Config where
  "keyedConfig = \<lparr>apiUrl = lit ''https://api.openai.com/v1'', apiKey = lit ''sk-test'',
     outputDir = lit ''./generated'', generateCloudflareWorker = True\<rparr>"

definition downNetwork :: "ai_request \<Rightarrow> fetch_outcome" where
  "downNetwork request = Rejected (TypeError (lit ''fetch failed''))"

definition nullBodyNetwork :: "ai_request \<Rightarrow> fetch_outcome" where
  "nullBodyNetwork request =
     Responded \<lparr>status = 200, statusText = lit ''OK'',
       headers = [(lit ''Content-Type'', lit ''application/json'')], body = Json JNull\<rparr>"

definition noChoicesNetwork :: "ai_request \<Rightarrow> fetch_outcome" where
  "noChoicesNetwork request =
     Responded \<lparr>status = 200, statusText = lit ''OK'',
       headers = [(lit ''Content-Type'', lit ''application/json'')],
       body = Json (JObj [(lit ''choices'', JArr [])])\<rparr>"

definition listUsersDocument :: json where
  "listUsersDocument =
     JObj [(lit ''openapi'', JStr (lit ''3.0.0'')),
           (lit ''paths'', JObj [(lit ''/users'',
              JObj [(lit ''get'', JObj [(lit ''operationId'', JStr (lit ''listUsers'')),
                                        (lit ''description'', JStr (lit ''List the users''))])])])]"

text \<open>
  Group workers that each answer 200 with the name of their own group, so that the answer
  tells which worker was called; a request to the chat group, a request to no group, a
  request to the root, and an environment.
\<close>

definition namedWorker :: "jsstring \<Rightarrow> Worker" where
  "namedWorker g request env =
     Inr \<lparr>status = 200, statusText = [],
          headers = [(lit ''Content-Type'', lit ''application/json'')],
          body = Json (JObj [(lit ''group'', JStr g)])\<rparr>"

definition exampleWorkers :: Workers where
  "exampleWorkers =
     \<lparr>assistantsWorker = namedWorker (lit ''assistants''),
      audioWorker = namedWorker (lit ''audio''),
      batchesWorker = namedWorker (lit ''batches''),
      chatWorker = namedWorker (lit ''chat''),
      completionsWorker = namedWorker (lit ''completions''),
      embeddingsWorker = namedWorker (lit ''embeddings''),
      evalsWorker = namedWorker (lit ''evals''),
      filesWorker = namedWorker (lit ''files''),
      fine_tuningWorker = namedWorker (lit ''fine_tuning''),
      imagesWorker = namedWorker (lit ''images''),
      modelsWorker = namedWorker (lit ''models''),
      moderationsWorker = namedWorker (lit ''moderations''),
      organizationWorker = namedWorker (lit ''organization''),
      realtimeWorker = namedWorker (lit ''realtime''),
      responsesWorker = namedWorker (lit ''responses''),
      threadsWorker = namedWorker (lit ''threads''),
      uploadsWorker = namedWorker (lit ''uploads''),
      vector_storesWorker = namedWorker (lit ''vector_stores'')\<rparr>"

definition chatRequest :: Request where
  "chatRequest = \<lparr>httpMethod = lit ''POST'', pathname = lit ''/chat/completions'',
     requestHeaders = [(lit ''Authorization'', lit ''Bearer secret''),
                       (lit ''CF-Connecting-IP'', lit ''203.0.113.7'')]\<rparr>"

definition unknownGroupRequest :: Request where
  "unknownGroupRequest = \<lparr>httpMethod = lit ''GET'', pathname = lit ''/unknown-group/anything'',
     requestHeaders = [(lit ''Authorization'', lit ''Bearer secret''),
                       (lit ''CF-Connecting-IP'', lit ''203.0.113.7'')]\<rparr>"

definition rootRequest :: Request where
  "rootRequest = \<lparr>httpMethod = lit ''GET'', pathname = lit ''/'', requestHeaders = []\<rparr>"

definition exampleEnv :: Env where
  "exampleEnv = \<lparr>API_KEY = Some (lit ''secret''), API_BASE_URL = None, ALLOWED_ORIGINS = None,
     RATE_LIMIT_PER_MINUTE = None, DEBUG = None\<rparr>"

section \<open>Properties of sanitizeIdentifier\<close>

lemma isWordChar_underscore: "isWordChar underscore"
  by (simp add: isWordChar_def)

lemma not_isDigit_underscore: "\<not> isDigit underscore"
  by (simp add: isDigit_def underscore_def)

lemma list_all_replaceNonWord: "list_all isWordChar (replaceNonWord s)"
  by (induction s) (simp_all add: replaceNonWord_def isWordChar_underscore)

lemma list_all_prefixLeadingDigit:
  "list_all isWordChar s \<Longrightarrow> list_all isWordChar (prefixLeadingDigit s)"
  by (cases s) (simp_all add: prefixLeadingDigit_def isWordChar_underscore)

lemma list_all_lit_empty: "list_all isWordChar (lit ''_empty'')"
  by (simp add: lit_def isWordChar_def isLower_def underscore_def)

lemma hd_prefixLeadingDigit:
  "prefixLeadingDigit s \<noteq> [] \<Longrightarrow> \<not> isDigit (hd (prefixLeadingDigit s))"
  by (cases s) (simp_all add: prefixLeadingDigit_def not_isDigit_underscore)

lemma prefixLeadingDigit_Nil_iff: "prefixLeadingDigit s = [] \<longleftrightarrow> s = []"
  by (cases s) (simp_all add: prefixLeadingDigit_def)

text \<open>
  Claim C10. For every input string, sanitizeIdentifier returns a non-empty string made
  only of ASCII letters, digits and underscores whose first code unit is not a digit.
  Every code unit outside \<^verbatim>\<open>[a-zA-Z0-9_]\<close> is replaced by an underscore, a leading digit
  gets an underscore in front of it, and the empty string becomes \<^verbatim>\<open>_empty\<close>.
\<close>

theorem sanitizeIdentifier_valid:
  "sanitizeIdentifier name \<noteq> []
   \<and> list_all isWordChar (sanitizeIdentifier name)
   \<and> \<not> isDigit (hd (sanitizeIdentifier name))
   \<and> sanitizeIdentifier name =
       (if name = [] then lit ''_empty''
        else if isDigit (hd name) then underscore # replaceNonWord name
        else replaceNonWord name)"
proof -
  let ?r = "prefixLeadingDigit (replaceNonWord name)"
  have nonempty: "sanitizeIdentifier name \<noteq> []"
    by (simp add: sanitizeIdentifier_def replaceEmpty_def lit_def)
  have chars: "list_all isWordChar (sanitizeIdentifier name)"
    unfolding sanitizeIdentifier_def replaceEmpty_def
    using list_all_lit_empty list_all_prefixLeadingDigit [OF list_all_replaceNonWord, of name]
    by simp
  have first: "\<not> isDigit (hd (sanitizeIdentifier name))"
  proof (cases "?r = []")
    case True
    then show ?thesis
      by (simp add: sanitizeIdentifier_def replaceEmpty_def lit_def isDigit_def)
  next
    case False
    then show ?thesis
      using hd_prefixLeadingDigit [of "replaceNonWord name"]
      by (simp add: sanitizeIdentifier_def replaceEmpty_def)
  qed
  have shape: "sanitizeIdentifier name =
       (if name = [] then lit ''_empty''
        else if isDigit (hd name) then underscore # replaceNonWord name
        else replaceNonWord name)"
  proof (cases name)
    case Nil
    then show ?thesis
      by (simp add: sanitizeIdentifier_def replaceEmpty_def prefixLeadingDigit_def
          replaceNonWord_def)
  next
    case (Cons c cs)
    then show ?thesis
      by (simp add: sanitizeIdentifier_def replaceEmpty_def prefixLeadingDigit_def
          replaceNonWord_def isWordChar_def not_isDigit_underscore)
  qed
  from nonempty chars first shape show ?thesis by blast
qed

theorem sanitizeIdentifier_valid_witness:
  "sanitizeIdentifier (lit ''9 lives!'') = lit ''_9_lives_''
   \<and> sanitizeIdentifier (lit ''9 lives!'') \<noteq> []
   \<and> list_all isWordChar (sanitizeIdentifier (lit ''9 lives!''))
   \<and> \<not> isDigit (hd (sanitizeIdentifier (lit ''9 lives!'')))"
  using sanitizeIdentifier_valid [of "lit ''9 lives!''"]
  by (simp add: lit_def replaceNonWord_def isWordChar_def isDigit_def isLower_def
      isUpper_def underscore_def)

section \<open>Properties of the pipeline\<close>

lemmas run_defs = generateFromYaml_def parseOpenApiYaml_def readFileSync_def
  writeGeneratedFiles_def ensureDirectoryExists_def mkdir_def ancestors_def writeFile_def
  fs_writeFile_def dirname_def slash_def quoted_def lit_def

lemma member_absent: "\<not> hasOwn doc k \<Longrightarrow> member doc k = JNull"
  by (cases doc) auto

lemma truthy_member_truthy: "truthy (member doc k) \<Longrightarrow> truthy doc"
  by (cases doc) auto

lemma parseOpenApiYaml_loaded:
  assumes "readFileSync p fs = Inr text" and "load text = Inr doc"
  shows "parseOpenApiYaml load p fs =
     (if truthy (member doc (lit ''openapi'')) then Inr doc else Inl missingFieldsError)"
  using assms truthy_member_truthy [of doc "lit ''openapi''"]
  by (auto simp: parseOpenApiYaml_def Let_def missingFieldsError_def lit_def)

lemma generateFromYaml_parse_error:
  "parseOpenApiYaml (yaml_load C) p fs = Inl e \<Longrightarrow> generateFromYaml C config p fs = (Inl e, fs)"
  by (simp add: generateFromYaml_def)

text \<open>
  Claim C6, as amended. For a document that was read and loaded, the parser returns it
  unchanged exactly when its \<^verbatim>\<open>openapi\<close> field is truthy. Otherwise, and so whenever
  the field is missing or the document is empty, the parser throws, and generateFromYaml
  ends with that error and an untouched file system whatever the two generators are:
  neither of them has run.
\<close>

theorem parseOpenApiYaml_requires_truthy_openapi:
  assumes "readFileSync p fs = Inr text" and "yaml_load C text = Inr doc"
  shows "(\<not> hasOwn doc (lit ''openapi'') \<longrightarrow> \<not> truthy (member doc (lit ''openapi'')))
    \<and> (\<not> truthy (member doc (lit ''openapi'')) \<longrightarrow>
          parseOpenApiYaml (yaml_load C) p fs = Inl missingFieldsError
          \<and> generateFromYaml C config p fs = (Inl missingFieldsError, fs))
    \<and> (truthy (member doc (lit ''openapi'')) \<longrightarrow> parseOpenApiYaml (yaml_load C) p fs = Inr doc)"
proof -
  note parsed = parseOpenApiYaml_loaded [where load = "yaml_load C", OF assms]
  have absent: "\<not> hasOwn doc (lit ''openapi'') \<longrightarrow> \<not> truthy (member doc (lit ''openapi''))"
    by (simp add: member_absent)
  have rejected: "parseOpenApiYaml (yaml_load C) p fs = Inl missingFieldsError
      \<and> generateFromYaml C config p fs = (Inl missingFieldsError, fs)"
    if "\<not> truthy (member doc (lit ''openapi''))"
    using that parsed generateFromYaml_parse_error [of C p fs missingFieldsError config] by simp
  have accepted: "parseOpenApiYaml (yaml_load C) p fs = Inr doc" if "truthy (member doc (lit ''openapi''))"
    using that parsed by simp
  from absent rejected accepted show ?thesis by blast
qed

theorem parseOpenApiYaml_requires_truthy_openapi_witness:
  "parseOpenApiYaml (yaml_load exampleCollaborators) (lit ''api.yaml'') freshFilesystem = Inr exampleDocument
   \<and> truthy (member exampleDocument (lit ''openapi''))
   \<and> readFileSync (lit ''api.yaml'') freshFilesystem = Inr (lit ''openapi: 3.0.0'')
   \<and> yaml_load exampleCollaborators (lit ''openapi: 3.0.0'') = Inr exampleDocument"
proof -
  have rd: "readFileSync (lit ''api.yaml'') freshFilesystem = Inr (lit ''openapi: 3.0.0'')"
    by (simp add: readFileSync_def freshFilesystem_def lit_def)
  have ld: "yaml_load exampleCollaborators (lit ''openapi: 3.0.0'') = Inr exampleDocument"
    by (simp add: exampleCollaborators_def exampleLoad_def)
  have tr: "truthy (member exampleDocument (lit ''openapi''))"
    by (simp add: exampleDocument_def lit_def)
  from parseOpenApiYaml_requires_truthy_openapi [OF rd ld, of exampleConfig] rd ld tr
  show ?thesis by simp
qed

text \<open>
  Counterexample to C6 as stated: the document has an \<^verbatim>\<open>openapi\<close> field, holding the
  empty string, and the parser throws instead of returning it.
\<close>

theorem parseOpenApiYaml_rejects_present_field:
  "hasOwn emptyVersionDocument (lit ''openapi'')
   \<and> readFileSync (lit ''api.yaml'') emptyVersionFilesystem = Inr (lit ''openapi: \"\"'')
   \<and> exampleLoad (lit ''openapi: \"\"'') = Inr emptyVersionDocument
   \<and> parseOpenApiYaml exampleLoad (lit ''api.yaml'') emptyVersionFilesystem = Inl missingFieldsError"
  by (simp add: run_defs exampleLoad_def emptyVersionDocument_def emptyVersionFilesystem_def
      missingFieldsError_def)

lemma generateFromYaml_types_error:
  "parseOpenApiYaml (yaml_load C) p fs = Inr spec \<Longrightarrow> generateTypes C spec = Inl e
    \<Longrightarrow> generateFromYaml C config p fs = (Inl e, fs)"
  by (simp add: generateFromYaml_def)

lemma generateFromYaml_stubs_error:
  "parseOpenApiYaml (yaml_load C) p fs = Inr spec \<Longrightarrow> generateTypes C spec = Inr t
    \<Longrightarrow> generateStubs C spec config = Inl e
    \<Longrightarrow> generateFromYaml C config p fs = (Inl e, fs)"
  by (simp add: generateFromYaml_def)

text \<open>
  Claim C2, as amended. An error of the parser or of either generator ends the run with
  that error and the file system as it was; a run that changed the file system has parsed
  the document and produced every artifact first.
\<close>

theorem generateFromYaml_writes_after_generation:
  assumes run: "generateFromYaml C config p fs = (r, fs')"
  shows "(\<forall>e. parseOpenApiYaml (yaml_load C) p fs = Inl e \<longrightarrow> r = Inl e \<and> fs' = fs)
    \<and> (\<forall>spec e. parseOpenApiYaml (yaml_load C) p fs = Inr spec \<and> generateTypes C spec = Inl e
          \<longrightarrow> r = Inl e \<and> fs' = fs)
    \<and> (\<forall>spec t e. parseOpenApiYaml (yaml_load C) p fs = Inr spec \<and> generateTypes C spec = Inr t
          \<and> generateStubs C spec config = Inl e \<longrightarrow> r = Inl e \<and> fs' = fs)
    \<and> (fs' \<noteq> fs \<longrightarrow> (\<exists>spec t ss. parseOpenApiYaml (yaml_load C) p fs = Inr spec
          \<and> generateTypes C spec = Inr t \<and> generateStubs C spec config = Inr ss))"
proof -
  have a: "r = Inl e \<and> fs' = fs" if "parseOpenApiYaml (yaml_load C) p fs = Inl e" for e
    using generateFromYaml_parse_error [OF that, of config] run by simp
  have b: "r = Inl e \<and> fs' = fs"
    if "parseOpenApiYaml (yaml_load C) p fs = Inr spec" "generateTypes C spec = Inl e" for spec e
    using generateFromYaml_types_error [OF that, of config] run by simp
  have c: "r = Inl e \<and> fs' = fs"
    if "parseOpenApiYaml (yaml_load C) p fs = Inr spec" "generateTypes C spec = Inr t"
      "generateStubs C spec config = Inl e" for spec t e
    using generateFromYaml_stubs_error [OF that] run by simp
  have d: "\<exists>spec t ss. parseOpenApiYaml (yaml_load C) p fs = Inr spec
          \<and> generateTypes C spec = Inr t \<and> generateStubs C spec config = Inr ss" if "fs' \<noteq> fs"
  proof (cases "parseOpenApiYaml (yaml_load C) p fs")
    case (Inl e)
    with a that show ?thesis by blast
  next
    case parsed: (Inr spec)
    show ?thesis
    proof (cases "generateTypes C spec")
      case (Inl e)
      with b parsed that show ?thesis by blast
    next
      case types: (Inr t)
      show ?thesis
      proof (cases "generateStubs C spec config")
        case (Inl e)
        with c parsed types that show ?thesis by blast
      next
        case (Inr ss)
        with parsed types show ?thesis by blast
      qed
    qed
  qed
  have a': "\<forall>e. parseOpenApiYaml (yaml_load C) p fs = Inl e \<longrightarrow> r = Inl e \<and> fs' = fs"
    using a by blast
  have b': "\<forall>spec e. parseOpenApiYaml (yaml_load C) p fs = Inr spec \<and> generateTypes C spec = Inl e
          \<longrightarrow> r = Inl e \<and> fs' = fs"
    using b by blast
  have c': "\<forall>spec t e. parseOpenApiYaml (yaml_load C) p fs = Inr spec \<and> generateTypes C spec = Inr t
          \<and> generateStubs C spec config = Inl e \<longrightarrow> r = Inl e \<and> fs' = fs"
    using c by blast
  have d': "fs' \<noteq> fs \<longrightarrow> (\<exists>spec t ss. parseOpenApiYaml (yaml_load C) p fs = Inr spec
          \<and> generateTypes C spec = Inr t \<and> generateStubs C spec config = Inr ss)"
    using d by blast
  from a' b' c' d' show ?thesis by (intro conjI)
qed

theorem generateFromYaml_writes_after_generation_witness:
  "parseOpenApiYaml (yaml_load failingCollaborators) (lit ''api.yaml'') staleFilesystem = Inr exampleDocument
   \<and> generateTypes failingCollaborators exampleDocument = Inr typesArtifact
   \<and> generateStubs failingCollaborators exampleDocument exampleConfig
       = Inl (Error (lit ''operation without a path''))
   \<and> generateFromYaml failingCollaborators exampleConfig (lit ''api.yaml'') staleFilesystem
       = (Inl (Error (lit ''operation without a path'')), staleFilesystem)"
proof -
  let ?run = "generateFromYaml failingCollaborators exampleConfig (lit ''api.yaml'') staleFilesystem"
  have p: "parseOpenApiYaml (yaml_load failingCollaborators) (lit ''api.yaml'') staleFilesystem = Inr exampleDocument"
    by (simp add: run_defs failingCollaborators_def exampleLoad_def exampleDocument_def staleFilesystem_def)
  have t: "generateTypes failingCollaborators exampleDocument = Inr typesArtifact"
    by (simp add: failingCollaborators_def exampleTypes_def)
  have s: "generateStubs failingCollaborators exampleDocument exampleConfig
       = Inl (Error (lit ''operation without a path''))"
    by (simp add: failingCollaborators_def failingStubs_def)
  have "?run = (fst ?run, snd ?run)" by simp
  from generateFromYaml_writes_after_generation [OF this] p t s
  have "fst ?run = Inl (Error (lit ''operation without a path'')) \<and> snd ?run = staleFilesystem"
    by blast
  with p t s show ?thesis by (simp add: prod_eq_iff)
qed

text \<open>
  Counterexample to C2 as stated: the write of the second artifact fails, the run ends
  with that error, and the first artifact is in the output directory.
\<close>

theorem generateFromYaml_partial_output:
  "fst (generateFromYaml exampleCollaborators exampleConfig (lit ''api.yaml'') blockedFilesystem)
     = Inl (Error (lit ''Error writing file at ./generated/worker.ts: EISDIR: illegal operation on a directory, open '' @ quoted (lit ''./generated/worker.ts'')))
   \<and> map_of (files blockedFilesystem) (lit ''./generated/types.ts'') = None
   \<and> map_of (files (snd (generateFromYaml exampleCollaborators exampleConfig (lit ''api.yaml'') blockedFilesystem)))
        (lit ''./generated/types.ts'') = Some (content typesArtifact)
   \<and> map_of (files (snd (generateFromYaml exampleCollaborators exampleConfig (lit ''api.yaml'') blockedFilesystem)))
        (lit ''./generated/worker.ts'') = None"
  by (simp add: run_defs exampleCollaborators_def exampleLoad_def exampleDocument_def
        exampleTypes_def exampleStubs_def exampleConfig_def blockedFilesystem_def
        typesArtifact_def workerArtifact_def)

section \<open>Properties of the stubs and the AI enhancement\<close>

lemma enhanceWithAI_returns: "\<exists>code. enhanceWithAI config net spec operationId = Inr code"
  by (simp add: enhanceWithAI_def split: sum.splits)

lemma enhanceWithAI_caught:
  "attemptAI config net spec operationId = Inl e \<Longrightarrow>
   enhanceWithAI config net spec operationId = Inr (JStr (generateBasicStub operationId))"
  by (simp add: enhanceWithAI_def)

lemma attemptAI_rejected:
  assumes "\<forall>request. \<exists>e. net request = Rejected e"
  shows "\<exists>e. attemptAI config net spec operationId = Inl e"
proof (cases "buildAIPrompt spec operationId")
  case (Inl e)
  then show ?thesis by (simp add: attemptAI_def)
next
  case (Inr prompt)
  let ?request = "\<lparr>requestUrl = apiUrl config @ lit ''/chat/completions'',
                authorization = lit ''Bearer '' @ apiKey config, userPrompt = prompt\<rparr>"
  from assms obtain e where "net ?request = Rejected e" by blast
  with Inr show ?thesis by (simp add: attemptAI_def callAIAPI_def)
qed

lemma attemptAI_not_ok:
  assumes "\<forall>request. \<exists>response. net request = Responded response \<and> \<not> ok response"
  shows "\<exists>e. attemptAI config net spec operationId = Inl e"
proof (cases "buildAIPrompt spec operationId")
  case (Inl e)
  then show ?thesis by (simp add: attemptAI_def)
next
  case (Inr prompt)
  let ?request = "\<lparr>requestUrl = apiUrl config @ lit ''/chat/completions'',
                authorization = lit ''Bearer '' @ apiKey config, userPrompt = prompt\<rparr>"
  from assms obtain response where "net ?request = Responded response" "\<not> ok response" by blast
  with Inr show ?thesis by (simp add: attemptAI_def callAIAPI_def)
qed

lemma attemptAI_bad_body:
  assumes "\<forall>request. \<exists>response e. net request = Responded response \<and> responseJson response = Inl e"
  shows "\<exists>e. attemptAI config net spec operationId = Inl e"
proof (cases "buildAIPrompt spec operationId")
  case (Inl e)
  then show ?thesis by (simp add: attemptAI_def)
next
  case (Inr prompt)
  let ?request = "\<lparr>requestUrl = apiUrl config @ lit ''/chat/completions'',
                authorization = lit ''Bearer '' @ apiKey config, userPrompt = prompt\<rparr>"
  from assms obtain response e where "net ?request = Responded response" "responseJson response = Inl e"
    by blast
  with Inr show ?thesis by (simp add: attemptAI_def callAIAPI_def)
qed

text \<open>
  Claim C5. For every configuration, network, document and operationId, enhanceWithAI
  returns a value and never throws. Whenever the attempt inside its \<^verbatim>\<open>try\<close> block fails
  (the prompt cannot be built, \<^verbatim>\<open>fetch\<close> rejects, the status is not OK, or the body is
  not JSON), the result is the default placeholder stub of that operationId.
\<close>

theorem enhanceWithAI_never_throws:
  "(\<exists>code. enhanceWithAI config net spec operationId = Inr code)
   \<and> (\<forall>e. attemptAI config net spec operationId = Inl e \<longrightarrow>
         enhanceWithAI config net spec operationId = Inr (JStr (generateBasicStub operationId)))
   \<and> ((\<forall>request. \<exists>e. net request = Rejected e) \<longrightarrow>
         enhanceWithAI config net spec operationId = Inr (JStr (generateBasicStub operationId)))
   \<and> ((\<forall>request. \<exists>response. net request = Responded response \<and> \<not> ok response) \<longrightarrow>
         enhanceWithAI config net spec operationId = Inr (JStr (generateBasicStub operationId)))
   \<and> ((\<forall>request. \<exists>response e. net request = Responded response \<and> responseJson response = Inl e) \<longrightarrow>
         enhanceWithAI config net spec operationId = Inr (JStr (generateBasicStub operationId)))"
proof -
  note caught = enhanceWithAI_caught [of config net spec operationId]
  have a: "\<forall>e. attemptAI config net spec operationId = Inl e \<longrightarrow>
         enhanceWithAI config net spec operationId = Inr (JStr (generateBasicStub operationId))"
    using caught by blast
  have b: "(\<forall>request. \<exists>e. net request = Rejected e) \<longrightarrow>
         enhanceWithAI config net spec operationId = Inr (JStr (generateBasicStub operationId))"
    using attemptAI_rejected [of net config spec operationId] caught by blast
  have c: "(\<forall>request. \<exists>response. net request = Responded response \<and> \<not> ok response) \<longrightarrow>
         enhanceWithAI config net spec operationId = Inr (JStr (generateBasicStub operationId))"
    using attemptAI_not_ok [of net config spec operationId] caught by blast
  have d: "(\<forall>request. \<exists>response e. net request = Responded response \<and> responseJson response = Inl e) \<longrightarrow>
         enhanceWithAI config net spec operationId = Inr (JStr (generateBasicStub operationId))"
    using attemptAI_bad_body [of net config spec operationId] caught by blast
  from enhanceWithAI_returns [of config net spec operationId] a b c d show ?thesis
    by (intro conjI)
qed

theorem enhanceWithAI_never_throws_witness:
  "apiKey keyedConfig \<noteq> [] \<and> apiKey keyedConfig \<noteq> lit ''your-api-key-here''
   \<and> attemptAI keyedConfig downNetwork listUsersDocument (lit ''listUsers'')
       = Inl (TypeError (lit ''fetch failed''))
   \<and> enhanceWithAI keyedConfig downNetwork listUsersDocument (lit ''listUsers'')
       = Inr (JStr (generateBasicStub (lit ''listUsers'')))"
proof -
  have k: "apiKey keyedConfig \<noteq> [] \<and> apiKey keyedConfig \<noteq> lit ''your-api-key-here''"
    by (simp add: keyedConfig_def lit_def)
  have f: "attemptAI keyedConfig downNetwork listUsersDocument (lit ''listUsers'')
       = Inl (TypeError (lit ''fetch failed''))"
    by (simp add: attemptAI_def callAIAPI_def buildAIPrompt_def findOperation_def downNetwork_def
        listUsersDocument_def)
  from enhanceWithAI_never_throws [of keyedConfig downNetwork listUsersDocument "lit ''listUsers''"] k f
  show ?thesis by simp
qed

lemma length_generateBasicStub: "length (generateBasicStub i) = 3 * length i + 293"
  by (simp add: generateBasicStub_def joinLines_def lit_def)

lemma generateBasicStub_inj:
  assumes "generateBasicStub a = generateBasicStub b"
  shows "a = b"
proof -
  from assms have "length (generateBasicStub a) = length (generateBasicStub b)" by simp
  then have "length a = length b" by (simp add: length_generateBasicStub)
  with assms show ?thesis
    by (simp add: generateBasicStub_def joinLines_def lit_def)
qed

text \<open>
  Claim C9, as amended. With an API key configured, when the call answers with an OK
  status and a JSON body other than \<^verbatim>\<open>null\<close> in which
  \<^verbatim>\<open>choices?.[0]?.message?.content\<close> is missing or falsy, enhanceWithAI returns the
  placeholder stub of the literal operation id \<^verbatim>\<open>unknown\<close>, which is not the stub of the
  requested operationId unless that is \<^verbatim>\<open>unknown\<close> itself.
\<close>

theorem enhanceWithAI_unknown_fallback:
  assumes "apiKey config \<noteq> []" and "apiKey config \<noteq> lit ''your-api-key-here''"
    and "buildAIPrompt spec operationId = Inr prompt"
    and "net \<lparr>requestUrl = apiUrl config @ lit ''/chat/completions'',
              authorization = lit ''Bearer '' @ apiKey config, userPrompt = prompt\<rparr>
         = Responded response"
    and "ok response" and "responseJson response = Inr data" and "data \<noteq> JNull"
    and "\<not> truthy (optMember (optMember (optFirst (member data (lit ''choices''))) (lit ''message''))
            (lit ''content''))"
  shows "enhanceWithAI config net spec operationId = Inr (JStr (generateBasicStub (lit ''unknown'')))
    \<and> (operationId \<noteq> lit ''unknown'' \<longrightarrow>
         enhanceWithAI config net spec operationId \<noteq> Inr (JStr (generateBasicStub operationId)))"
proof -
  have r: "enhanceWithAI config net spec operationId = Inr (JStr (generateBasicStub (lit ''unknown'')))"
    using assms by (simp add: enhanceWithAI_def attemptAI_def callAIAPI_def)
  moreover have "generateBasicStub (lit ''unknown'') \<noteq> generateBasicStub operationId"
    if "operationId \<noteq> lit ''unknown''"
    using that generateBasicStub_inj [of "lit ''unknown''" operationId] by blast
  ultimately show ?thesis by simp
qed

theorem enhanceWithAI_unknown_fallback_witness:
  "enhanceWithAI keyedConfig noChoicesNetwork listUsersDocument (lit ''listUsers'')
     = Inr (JStr (generateBasicStub (lit ''unknown'')))
   \<and> enhanceWithAI keyedConfig noChoicesNetwork listUsersDocument (lit ''listUsers'')
     \<noteq> Inr (JStr (generateBasicStub (lit ''listUsers'')))"
proof -
  let ?prompt = "projr (buildAIPrompt listUsersDocument (lit ''listUsers''))"
  let ?response = "\<lparr>status = 200, statusText = lit ''OK'',
       headers = [(lit ''Content-Type'', lit ''application/json'')],
       body = Json (JObj [(lit ''choices'', JArr [])])\<rparr>"
  have k1: "apiKey keyedConfig \<noteq> []" and k2: "apiKey keyedConfig \<noteq> lit ''your-api-key-here''"
    by (simp_all add: keyedConfig_def lit_def)
  have p: "buildAIPrompt listUsersDocument (lit ''listUsers'') = Inr ?prompt"
    by (simp add: buildAIPrompt_def findOperation_def listUsersDocument_def)
  have n: "noChoicesNetwork \<lparr>requestUrl = apiUrl keyedConfig @ lit ''/chat/completions'',
              authorization = lit ''Bearer '' @ apiKey keyedConfig, userPrompt = ?prompt\<rparr>
         = Responded ?response"
    by (simp add: noChoicesNetwork_def)
  have c: "\<not> truthy (optMember (optMember (optFirst (member (JObj [(lit ''choices'', JArr [])])
            (lit ''choices''))) (lit ''message'')) (lit ''content''))"
    by (simp add: optMember_def optFirst_def)
  have u: "lit ''listUsers'' \<noteq> lit ''unknown''" by (simp add: lit_def)
  have "enhanceWithAI keyedConfig noChoicesNetwork listUsersDocument (lit ''listUsers'')
       = Inr (JStr (generateBasicStub (lit ''unknown'')))
     \<and> (lit ''listUsers'' \<noteq> lit ''unknown'' \<longrightarrow>
         enhanceWithAI keyedConfig noChoicesNetwork listUsersDocument (lit ''listUsers'')
           \<noteq> Inr (JStr (generateBasicStub (lit ''listUsers''))))"
    by (rule enhanceWithAI_unknown_fallback [where net = noChoicesNetwork and response = ?response
          and data = "JObj [(lit ''choices'', JArr [])]", OF k1 k2 p n])
      (simp_all add: optMember_def optFirst_def ok_def responseJson_def)
  with u show ?thesis by blast
qed

text \<open>
  Counterexample to C9 as stated: the call answers 200 with the JSON body \<^verbatim>\<open>null\<close>,
  which holds no \<^verbatim>\<open>choices[0].message.content\<close>. Reading \<^verbatim>\<open>data.choices\<close> throws, the
  \<^verbatim>\<open>catch\<close> of enhanceWithAI takes over, and the result is the stub of the requested
  operationId, not the stub of \<^verbatim>\<open>unknown\<close>.
\<close>

theorem enhanceWithAI_null_body:
  "apiKey keyedConfig \<noteq> [] \<and> apiKey keyedConfig \<noteq> lit ''your-api-key-here''
   \<and> nullBodyNetwork \<lparr>requestUrl = apiUrl keyedConfig @ lit ''/chat/completions'',
        authorization = lit ''Bearer '' @ apiKey keyedConfig,
        userPrompt = projr (buildAIPrompt listUsersDocument (lit ''listUsers''))\<rparr>
       = Responded \<lparr>status = 200, statusText = lit ''OK'',
           headers = [(lit ''Content-Type'', lit ''application/json'')], body = Json JNull\<rparr>
   \<and> enhanceWithAI keyedConfig nullBodyNetwork listUsersDocument (lit ''listUsers'')
       = Inr (JStr (generateBasicStub (lit ''listUsers'')))
   \<and> enhanceWithAI keyedConfig nullBodyNetwork listUsersDocument (lit ''listUsers'')
       \<noteq> Inr (JStr (generateBasicStub (lit ''unknown'')))"
proof -
  have r: "enhanceWithAI keyedConfig nullBodyNetwork listUsersDocument (lit ''listUsers'')
       = Inr (JStr (generateBasicStub (lit ''listUsers'')))"
    by (simp add: enhanceWithAI_def attemptAI_def callAIAPI_def buildAIPrompt_def findOperation_def
        nullBodyNetwork_def keyedConfig_def listUsersDocument_def lit_def ok_def responseJson_def)
  have "lit ''listUsers'' \<noteq> lit ''unknown''" by (simp add: lit_def)
  then have "generateBasicStub (lit ''listUsers'') \<noteq> generateBasicStub (lit ''unknown'')"
    using generateBasicStub_inj by blast
  with r show ?thesis by (simp add: keyedConfig_def nullBodyNetwork_def lit_def)
qed

text \<open>
  Claim C8 at the operationId \<^verbatim>\<open>get-user\<close>. generateBasicStub copies the operationId
  unchanged into the name of the function it declares, and the text it returns declares
  \<^verbatim>\<open>function get-user(request: Request)\<close>. The operationId is no identifier;
  sanitizeIdentifier would have turned it into \<^verbatim>\<open>get_user\<close>.
\<close>

theorem generateBasicStub_raw_operationId:
  "generateBasicStub (lit ''get-user'') = joinLines
     [ [],
       lit ''// TODO: Implement get-user'',
       lit ''export async function get-user(request: Request): Promise<Response> {'',
       lit ''  // Add your business logic here'',
       lit ''  return new Response(JSON.stringify({ '',
       lit ''    message: \"Not implemented\", '',
       lit ''    operation: \"get-user\" '',
       lit ''  }), {'',
       lit ''    status: 501,'',
       lit ''    headers: { \"Content-Type\": \"application/json\" }'',
       lit ''  });'',
       lit ''}'' ]
   \<and> \<not> list_all isWordChar (lit ''get-user'')
   \<and> sanitizeIdentifier (lit ''get-user'') = lit ''get_user''"
  by (simp add: generateBasicStub_def joinLines_def lit_def sanitizeIdentifier_def
      replaceEmpty_def prefixLeadingDigit_def replaceNonWord_def isWordChar_def isDigit_def
      isLower_def isUpper_def underscore_def)

section \<open>Properties of the routing step\<close>

text \<open>
  The first of the non-empty pieces that \<^verbatim>\<open>split("/").filter(Boolean)\<close> leaves is the first
  path segment as read off the text.
\<close>

lemma split_head: "\<exists>pieces. split sep s = takeWhile (\<lambda>x. x \<noteq> sep) s # pieces"
proof (induction s)
  case Nil
  then show ?case by simp
next
  case (Cons c cs)
  then obtain pieces where "split sep cs = takeWhile (\<lambda>x. x \<noteq> sep) cs # pieces"
    by blast
  then show ?case by simp
qed

lemma pathSegments_firstSegment:
  "(case pathSegments p of [] \<Rightarrow> None | s # rest \<Rightarrow> Some s) = firstSegment p"
proof (induction p)
  case Nil
  then show ?case by (simp add: pathSegments_def firstSegment_def)
next
  case (Cons c cs)
  show ?case
  proof (cases "c = slash")
    case True
    with Cons.IH show ?thesis
      by (simp add: pathSegments_def firstSegment_def slash_def)
  next
    case False
    obtain pieces where "split slash cs = takeWhile (\<lambda>x. x \<noteq> slash) cs # pieces"
      using split_head by blast
    with False show ?thesis
      by (simp add: pathSegments_def firstSegment_def slash_def)
  qed
qed

lemma routePrefix_firstSegment:
  "routePrefix p = (case firstSegment p of None \<Rightarrow> lit ''root'' | Some s \<Rightarrow> s)"
  using pathSegments_firstSegment [of p, symmetric]
  by (simp add: routePrefix_def split: list.splits)

lemma routeRequest_table:
  "routeRequest W request env =
     (case map_of (groupDispatchers W) (routePrefix (pathname request)) of
        Some worker \<Rightarrow> worker request env
      | None \<Rightarrow> Inr notFoundResponse)"
  by (simp add: routeRequest_def groupDispatchers_def Let_def)

lemma notFoundResponse_lists_groups:
  "notFoundResponse =
     \<lparr>status = 404, statusText = [],
      headers = [(lit ''Content-Type'', lit ''application/json'')],
      body = Json (JObj
        [(lit ''error'', JStr (lit ''Not Found'')),
         (lit ''availableRoutes'', JArr (map JStr (map fst (groupDispatchers W))))])\<rparr>"
  by (simp add: notFoundResponse_def groupDispatchers_def)

lemma distinct_groups: "distinct (map fst (groupDispatchers W))"
  by (simp add: groupDispatchers_def lit_def)

lemma root_is_no_group: "map_of (groupDispatchers W) (lit ''root'') = None"
  by (simp add: groupDispatchers_def lit_def)

text \<open>
  Claim C7. routeRequest decides by the first path segment of the request alone, the
  segment being read off the path name itself: a path without a segment gets the
  not-found response, and otherwise the segment is looked up among the known group names.
  A request whose first segment is a known group name is forwarded to that group's
  dispatcher. Every request whose first segment is no known group name gets the response
  with status 404, content type \<^verbatim>\<open>application/json\<close> and the body
  \<^verbatim>\<open>{error: "Not Found", availableRoutes: [...]}\<close>, where \<^verbatim>\<open>availableRoutes\<close> lists all
  known group names in their order; that response is the not-found response of the
  lookup.
\<close>

theorem routeRequest_by_first_segment:
  "routeRequest W request env =
     (case firstSegment (pathname request) of
        None \<Rightarrow> Inr notFoundResponse
      | Some g \<Rightarrow>
          (case map_of (groupDispatchers W) g of
             Some worker \<Rightarrow> worker request env
           | None \<Rightarrow> Inr notFoundResponse))
   \<and> (\<forall>g worker. firstSegment (pathname request) = Some g \<and> (g, worker) \<in> set (groupDispatchers W)
         \<longrightarrow> routeRequest W request env = worker request env)
   \<and> (firstSegment (pathname request) \<notin> Some ` fst ` set (groupDispatchers W)
         \<longrightarrow> routeRequest W request env =
               Inr \<lparr>status = 404, statusText = [],
                    headers = [(lit ''Content-Type'', lit ''application/json'')],
                    body = Json (JObj
                      [(lit ''error'', JStr (lit ''Not Found'')),
                       (lit ''availableRoutes'',
                        JArr (map JStr (map fst (groupDispatchers W))))])\<rparr>)
   \<and> notFoundResponse =
        \<lparr>status = 404, statusText = [],
         headers = [(lit ''Content-Type'', lit ''application/json'')],
         body = Json (JObj
           [(lit ''error'', JStr (lit ''Not Found'')),
            (lit ''availableRoutes'', JArr (map JStr (map fst (groupDispatchers W))))])\<rparr>"
proof -
  have table: "routeRequest W request env =
     (case firstSegment (pathname request) of
        None \<Rightarrow> Inr notFoundResponse
      | Some g \<Rightarrow>
          (case map_of (groupDispatchers W) g of
             Some worker \<Rightarrow> worker request env
           | None \<Rightarrow> Inr notFoundResponse))"
    using routeRequest_table [of W request env]
    by (simp add: routePrefix_firstSegment root_is_no_group split: option.splits)
  have known: "\<forall>g worker. firstSegment (pathname request) = Some g \<and> (g, worker) \<in> set (groupDispatchers W)
         \<longrightarrow> routeRequest W request env = worker request env"
  proof (intro allI impI)
    fix g worker
    assume h: "firstSegment (pathname request) = Some g \<and> (g, worker) \<in> set (groupDispatchers W)"
    then have "map_of (groupDispatchers W) g = Some worker"
      using distinct_groups [of W] by simp
    with h table show "routeRequest W request env = worker request env" by simp
  qed
  have missing: "firstSegment (pathname request) \<notin> Some ` fst ` set (groupDispatchers W)
         \<longrightarrow> routeRequest W request env = Inr notFoundResponse"
  proof
    assume h: "firstSegment (pathname request) \<notin> Some ` fst ` set (groupDispatchers W)"
    show "routeRequest W request env = Inr notFoundResponse"
    proof (cases "firstSegment (pathname request)")
      case None
      with table show ?thesis by simp
    next
      case (Some g)
      with h have "g \<notin> fst ` set (groupDispatchers W)" by auto
      then have "map_of (groupDispatchers W) g = None" by (simp add: map_of_eq_None_iff)
      with Some table show ?thesis by simp
    qed
  qed
  have listing: "notFoundResponse =
        \<lparr>status = 404, statusText = [],
         headers = [(lit ''Content-Type'', lit ''application/json'')],
         body = Json (JObj
           [(lit ''error'', JStr (lit ''Not Found'')),
            (lit ''availableRoutes'', JArr (map JStr (map fst (groupDispatchers W))))])\<rparr>"
    by (rule notFoundResponse_lists_groups)
  have missing': "firstSegment (pathname request) \<notin> Some ` fst ` set (groupDispatchers W)
         \<longrightarrow> routeRequest W request env =
               Inr \<lparr>status = 404, statusText = [],
                    headers = [(lit ''Content-Type'', lit ''application/json'')],
                    body = Json (JObj
                      [(lit ''error'', JStr (lit ''Not Found'')),
                       (lit ''availableRoutes'',
                        JArr (map JStr (map fst (groupDispatchers W))))])\<rparr>"
    using missing unfolding listing [symmetric] .
  from table known missing' listing show ?thesis by (intro conjI)
qed

theorem routeRequest_by_first_segment_witness:
  "firstSegment (pathname chatRequest) = Some (lit ''chat'')
   \<and> (lit ''chat'', chatWorker exampleWorkers) \<in> set (groupDispatchers exampleWorkers)
   \<and> routeRequest exampleWorkers chatRequest exampleEnv =
       Inr \<lparr>status = 200, statusText = [],
            headers = [(lit ''Content-Type'', lit ''application/json'')],
            body = Json (JObj [(lit ''group'', JStr (lit ''chat''))])\<rparr>
   \<and> firstSegment (pathname unknownGroupRequest) = Some (lit ''unknown-group'')
   \<and> routeRequest exampleWorkers unknownGroupRequest exampleEnv =
       Inr \<lparr>status = 404, statusText = [],
            headers = [(lit ''Content-Type'', lit ''application/json'')],
            body = Json (JObj
              [(lit ''error'', JStr (lit ''Not Found'')),
               (lit ''availableRoutes'',
                JArr (map JStr (map fst (groupDispatchers exampleWorkers))))])\<rparr>
   \<and> lit ''chat'' \<in> set (map fst (groupDispatchers exampleWorkers))
   \<and> firstSegment (pathname rootRequest) = None
   \<and> routeRequest exampleWorkers rootRequest exampleEnv = Inr notFoundResponse"
proof -
  have a: "firstSegment (pathname chatRequest) = Some (lit ''chat'')"
    by (simp add: firstSegment_def chatRequest_def lit_def)
  have b: "(lit ''chat'', chatWorker exampleWorkers) \<in> set (groupDispatchers exampleWorkers)"
    by (simp add: groupDispatchers_def)
  have c: "firstSegment (pathname unknownGroupRequest) = Some (lit ''unknown-group'')"
    by (simp add: firstSegment_def unknownGroupRequest_def lit_def)
  have d: "firstSegment (pathname unknownGroupRequest) \<notin> Some ` fst ` set (groupDispatchers exampleWorkers)"
    unfolding c by (simp add: groupDispatchers_def lit_def image_iff)
  have r: "firstSegment (pathname rootRequest) = None"
    by (simp add: firstSegment_def rootRequest_def lit_def)
  have r': "firstSegment (pathname rootRequest) \<notin> Some ` fst ` set (groupDispatchers exampleWorkers)"
    unfolding r by (simp add: image_iff)
  from routeRequest_by_first_segment [of exampleWorkers chatRequest exampleEnv] a b
  have "routeRequest exampleWorkers chatRequest exampleEnv = chatWorker exampleWorkers chatRequest exampleEnv"
    by blast
  then have e: "routeRequest exampleWorkers chatRequest exampleEnv =
       Inr \<lparr>status = 200, statusText = [],
            headers = [(lit ''Content-Type'', lit ''application/json'')],
            body = Json (JObj [(lit ''group'', JStr (lit ''chat''))])\<rparr>"
    by (simp add: exampleWorkers_def namedWorker_def)
  from routeRequest_by_first_segment [of exampleWorkers unknownGroupRequest exampleEnv] d
  have f: "routeRequest exampleWorkers unknownGroupRequest exampleEnv =
       Inr \<lparr>status = 404, statusText = [],
            headers = [(lit ''Content-Type'', lit ''application/json'')],
            body = Json (JObj
              [(lit ''error'', JStr (lit ''Not Found'')),
               (lit ''availableRoutes'',
                JArr (map JStr (map fst (groupDispatchers exampleWorkers))))])\<rparr>"
    by blast
  have l: "lit ''chat'' \<in> set (map fst (groupDispatchers exampleWorkers))"
    by (simp add: groupDispatchers_def)
  from routeRequest_by_first_segment [of exampleWorkers rootRequest exampleEnv] r
  have g: "routeRequest exampleWorkers rootRequest exampleEnv = Inr notFoundResponse"
    by simp
  from a b e c f l r g show ?thesis by (intro conjI)
qed

end
